theory Spec2Isabelle
  imports Complex_Main "HOL-Library.Sublist"
begin

section \<open>Python values, option mappings and text\<close>

text \<open>
  The values an options dictionary of \<^verbatim>\<open>mddftsolver.py\<close> holds, with Python's
  truth test and Python's comparison against a string literal.
\<close>

datatype pyval = PyNone | PyBool bool | PyInt int | PyStr string

fun truthy :: "pyval \<Rightarrow> bool" where
  "truthy PyNone = False"
| "truthy (PyBool b) = b"
| "truthy (PyInt n) = (n \<noteq> 0)"
| "truthy (PyStr s) = (s \<noteq> [])"

fun eq_str :: "pyval \<Rightarrow> string \<Rightarrow> bool" where
  "eq_str (PyStr s) t = (s = t)"
| "eq_str v t = False"

text \<open>
  Modelled from the spec: the option keys \<^verbatim>\<open>SW_OPT_REALCTYPE\<close>,
  \<^verbatim>\<open>SW_OPT_COLMAJOR\<close> and \<^verbatim>\<open>SW_OPT_CUDA\<close> come from the \<^verbatim>\<open>snowwhite\<close>
  package, which is imported by the source and not part of it. They are three distinct
  keys (real type, column-major layout, accelerator backend); every other key is opaque.
\<close>

datatype opt_key = SW_OPT_REALCTYPE | SW_OPT_COLMAJOR | SW_OPT_CUDA | OtherKey string

type_synonym opts_map = "opt_key \<rightharpoonup> pyval"

definition get_default :: "opts_map \<Rightarrow> opt_key \<Rightarrow> pyval \<Rightarrow> pyval" where
  "get_default d key dflt = (case d key of None \<Rightarrow> dflt | Some v \<Rightarrow> v)"

definition get :: "opts_map \<Rightarrow> opt_key \<Rightarrow> pyval" where
  "get d key = get_default d key PyNone"

text \<open>Python's \<^verbatim>\<open>str\<close> on an integer, \<^verbatim>\<open>sep.join\<close>, and \<^verbatim>\<open>str\<close> on a list of integers.\<close>

definition digit_char :: "nat \<Rightarrow> char" where
  "digit_char d = ''0123456789'' ! d"

fun str_nat :: "nat \<Rightarrow> string" where
  "str_nat n = (if n < 10 then [digit_char n] else str_nat (n div 10) @ [digit_char (n mod 10)])"

declare str_nat.simps [simp del]

definition str_int :: "int \<Rightarrow> string" where
  "str_int i = (if i < 0 then CHR ''-'' # str_nat (nat (- i)) else str_nat (nat i))"

fun join :: "string \<Rightarrow> string list \<Rightarrow> string" where
  "join sep [] = []"
| "join sep [s] = s"
| "join sep (s # t # ts) = s @ sep @ join sep (t # ts)"

definition str_list :: "int list \<Rightarrow> string" where
  "str_list xs = ''['' @ join '', '' (map str_int xs) @ '']''"

section \<open>The problem descriptor\<close>

text \<open>
  Modelled from the spec: the direction constants \<^verbatim>\<open>SW_FORWARD\<close> and \<^verbatim>\<open>SW_INVERSE\<close>
  are defined by the \<^verbatim>\<open>snowwhite\<close> package, not by the source. The source's comment in
  \<^verbatim>\<open>_writeScript\<close> (\<^verbatim>\<open>-1 is inverse for Numpy and forward (1) for Spiral\<close>) and the spec's
  script example (a forward problem is written with the literal \<^verbatim>\<open>-1\<close>) fix them as
  \<open>1\<close> and \<open>-1\<close>.
\<close>

definition SW_FORWARD :: int where
  "SW_FORWARD = 1"

definition SW_INVERSE :: int where
  "SW_INVERSE = - 1"

record MddftProblem =
  prob_ns :: "int list"
  prob_k :: int

text \<open>
  \<^verbatim>\<open>MddftProblem.__init__(self, ns, k=SW_FORWARD)\<close>: the optional argument is an
  \<open>int option\<close>, \<open>None\<close> when the caller leaves it out.
\<close>

definition MddftProblem_init :: "int list \<Rightarrow> int option \<Rightarrow> MddftProblem" where
  "MddftProblem_init ns kopt =
     \<lparr>prob_ns = ns, prob_k = (case kopt of None \<Rightarrow> SW_FORWARD | Some k \<Rightarrow> k)\<rparr>"

definition dimensions :: "MddftProblem \<Rightarrow> int list" where
  "dimensions p = prob_ns p"

definition direction :: "MddftProblem \<Rightarrow> int" where
  "direction p = prob_k p"

section \<open>Arrays and the store\<close>

text \<open>
  An array of the array library (NumPy on the host, CuPy on the accelerator; the source
  picks the module of its input with \<^verbatim>\<open>get_array_module\<close> and uses operations that both
  document alike). The elements are idealised as complex numbers, listed in row-major
  index order; rounding is outside this development. \<open>arr_order\<close> is the memory order
  the array was allocated with. The element types are those of a transform's input.
\<close>

datatype dtype = Float32 | Float64 | Complex64 | Complex128

datatype mem_order = C_order | F_order

record ndarray =
  arr_shape :: "nat list"
  arr_dtype :: dtype
  arr_order :: mem_order
  arr_data :: "complex list"

text \<open>
  Arrays are Python objects with identity: the store is the list of all arrays
  allocated so far, and a reference is a position in it. Allocation appends.
\<close>

type_synonym ref = nat

type_synonym store = "ndarray list"

definition alloc :: "store \<Rightarrow> ndarray \<Rightarrow> store \<times> ref" where
  "alloc h a = (h @ [a], length h)"

section \<open>The solver\<close>

datatype error = TypeError | ValueError

text \<open>
  The compiled artifact \<^verbatim>\<open>self._func(dst, src)\<close> is opaque native code that fills the
  destination buffer. It is a parameter of the model: \<open>f dst src i\<close> is the value it
  leaves at row-major position \<open>i\<close> of the destination, given both arrays as they are at
  the call. It writes nowhere else and cannot resize the buffer.
\<close>

type_synonym artifact = "ndarray \<Rightarrow> ndarray \<Rightarrow> nat \<Rightarrow> complex"

record MddftSolver =
  s_problem :: MddftProblem
  s_namebase :: string
  s_opts :: opts_map
  s_colMajor :: pyval
  s_genCuda :: pyval
  s_func :: artifact

text \<open>
  Modelled from the spec: \<^verbatim>\<open>SWSolver.__init__(problem, namebase, opts)\<close>, the base-class
  constructor of the \<^verbatim>\<open>snowwhite\<close> package, is not part of the source. By the spec it
  keeps the problem, the options and the canonical name as the base name, derives the
  layout from the column-major option and the target backend from the backend option, and
  hooks up the compiled artifact (here the parameter \<open>f\<close>).
\<close>

definition SWSolver_init :: "artifact \<Rightarrow> MddftProblem \<Rightarrow> string \<Rightarrow> opts_map \<Rightarrow> MddftSolver" where
  "SWSolver_init f p nm d =
     \<lparr>s_problem = p, s_namebase = nm, s_opts = d,
      s_colMajor = get_default d SW_OPT_COLMAJOR (PyBool False),
      s_genCuda = get_default d SW_OPT_CUDA (PyBool False),
      s_func = f\<rparr>"

text \<open>The name \<^verbatim>\<open>MddftSolver.__init__\<close> computes (source lines 36 to 47).\<close>

definition namebase_of :: "MddftProblem \<Rightarrow> opts_map \<Rightarrow> string" where
  "namebase_of p d =
     (let typ = (if eq_str (get_default d SW_OPT_REALCTYPE (PyInt 0)) ''float'' then ''c'' else ''z'');
          ns = join ''x'' (map str_int (dimensions p));
          namebase = (if direction p = SW_FORWARD then typ @ ''mddft_fwd_'' @ ns
                      else typ @ ''mddft_inv_'' @ ns)
      in if truthy (get_default d SW_OPT_COLMAJOR (PyBool False)) then namebase @ ''_F''
         else namebase)"

text \<open>
  The constructor's first argument is any Python object; \<^verbatim>\<open>isinstance\<close> tells a
  problem descriptor from everything else.
\<close>

datatype pyobject = Problem MddftProblem | NotAProblem pyval

fun MddftSolver_init :: "artifact \<Rightarrow> pyobject \<Rightarrow> opts_map \<Rightarrow> error + MddftSolver" where
  "MddftSolver_init f (NotAProblem v) d = Inl TypeError"
| "MddftSolver_init f (Problem p) d = Inr (SWSolver_init f p (namebase_of p d) d)"

section \<open>The array library\<close>

text \<open>
  \<^verbatim>\<open>xp.zeros(shape, dtype, order)\<close> refuses a negative extent; \<^verbatim>\<open>xp.size\<close> is the number
  of elements; \<^verbatim>\<open>xp.divide(a, n, out=a)\<close> divides every element of \<open>a\<close> in place.
\<close>

definition zeros :: "int list \<Rightarrow> dtype \<Rightarrow> mem_order \<Rightarrow> error + ndarray" where
  "zeros nt dt ord =
     (if list_ex (\<lambda>n. n < 0) nt then Inl ValueError
      else Inr \<lparr>arr_shape = map nat nt, arr_dtype = dt, arr_order = ord,
                arr_data = replicate (prod_list (map nat nt)) 0\<rparr>)"

definition size_arr :: "ndarray \<Rightarrow> nat" where
  "size_arr a = prod_list (arr_shape a)"

definition divide_out :: "store \<Rightarrow> ref \<Rightarrow> nat \<Rightarrow> store" where
  "divide_out h r n = h[r := (h ! r)\<lparr>arr_data := map (\<lambda>x. x / of_nat n) (arr_data (h ! r))\<rparr>]"

text \<open>The call of the compiled artifact: it rewrites the destination buffer only.\<close>

definition call_func :: "artifact \<Rightarrow> store \<Rightarrow> ref \<Rightarrow> ref \<Rightarrow> store" where
  "call_func f h dst src =
     h[dst := (h ! dst)\<lparr>arr_data := map (f (h ! dst) (h ! src)) [0..<length (arr_data (h ! dst))]\<rparr>]"

text \<open>
  The library's n-dimensional transforms, as NumPy and CuPy document them for the default
  normalisation: \<^verbatim>\<open>fftn\<close> is the plain sum with exponent \<open>- 2 \<pi> i (k \<cdot> m / n)\<close> and
  \<^verbatim>\<open>ifftn\<close> is the sum with the opposite sign divided by the number of elements, so that
  \<^verbatim>\<open>ifftn(fftn(a))\<close> gives \<open>a\<close> back. On an array of rank at least one with positive
  extents both return a new array of the input's shape. On an array of rank zero there is
  no axis to transform and both hand back the input object itself, untouched; on an array
  with an axis of length zero both raise \<^verbatim>\<open>ValueError\<close>.
  The element type and memory order of a new result are the library's business; the model
  takes a complex type of the input's precision and row-major order, and nothing below
  depends on either.
\<close>

fun unravel :: "nat list \<Rightarrow> nat \<Rightarrow> nat list" where
  "unravel [] i = []"
| "unravel (n # ns) i = (i div prod_list ns) # unravel ns (i mod prod_list ns)"

definition phase :: "nat list \<Rightarrow> nat \<Rightarrow> nat \<Rightarrow> real" where
  "phase shp k m =
     (\<Sum>(n, kj, mj) \<leftarrow> zip shp (zip (unravel shp k) (unravel shp m)). real (kj * mj) / real n)"

definition dftn :: "real \<Rightarrow> nat list \<Rightarrow> complex list \<Rightarrow> complex list" where
  "dftn sg shp xs =
     map (\<lambda>k. \<Sum>m \<leftarrow> [0..<length xs]. xs ! m * cis (sg * (2 * pi * phase shp k m)))
       [0..<length xs]"

fun fft_dtype :: "dtype \<Rightarrow> dtype" where
  "fft_dtype Float32 = Complex64"
| "fft_dtype Complex64 = Complex64"
| "fft_dtype Float64 = Complex128"
| "fft_dtype Complex128 = Complex128"

definition fftn_array :: "ndarray \<Rightarrow> ndarray" where
  "fftn_array a =
     \<lparr>arr_shape = arr_shape a, arr_dtype = fft_dtype (arr_dtype a), arr_order = C_order,
      arr_data = dftn (- 1) (arr_shape a) (arr_data a)\<rparr>"

definition ifftn_array :: "ndarray \<Rightarrow> ndarray" where
  "ifftn_array a =
     \<lparr>arr_shape = arr_shape a, arr_dtype = fft_dtype (arr_dtype a), arr_order = C_order,
      arr_data = map (\<lambda>y. y / of_nat (size_arr a)) (dftn 1 (arr_shape a) (arr_data a))\<rparr>"

definition fftn :: "store \<Rightarrow> ref \<Rightarrow> error + store \<times> ref" where
  "fftn h src =
     (if arr_shape (h ! src) = [] then Inr (h, src)
      else if 0 \<in> set (arr_shape (h ! src)) then Inl ValueError
      else Inr (alloc h (fftn_array (h ! src))))"

definition ifftn :: "store \<Rightarrow> ref \<Rightarrow> error + store \<times> ref" where
  "ifftn h src =
     (if arr_shape (h ! src) = [] then Inr (h, src)
      else if 0 \<in> set (arr_shape (h ! src)) then Inl ValueError
      else Inr (alloc h (ifftn_array (h ! src))))"

section \<open>Reference evaluation and compiled-kernel evaluation\<close>

text \<open>
  \<^verbatim>\<open>MddftSolver.runDef\<close> (source lines 51 to 61) returns what the library returns, without
  a copy of its own, and lets the library's error through.
\<close>

definition runDef :: "MddftSolver \<Rightarrow> store \<Rightarrow> ref \<Rightarrow> error + store \<times> ref" where
  "runDef self h src =
     (if direction (s_problem self) = SW_FORWARD then fftn h src
      else ifftn h src)"

text \<open>\<^verbatim>\<open>MddftSolver.solve\<close> (source lines 66 to 77).\<close>

definition solve :: "MddftSolver \<Rightarrow> store \<Rightarrow> ref \<Rightarrow> error + store \<times> ref" where
  "solve self h src =
     (let nt = dimensions (s_problem self);
          ordc = (if truthy (s_colMajor self) then F_order else C_order)
      in case zeros nt (arr_dtype (h ! src)) ordc of
           Inl e \<Rightarrow> Inl e
         | Inr z \<Rightarrow>
             (let (h1, dst) = alloc h z;
                  h2 = call_func (s_func self) h1 dst src;
                  h3 = (if direction (s_problem self) = SW_INVERSE
                        then divide_out h2 dst (size_arr (h2 ! dst)) else h2)
              in Inr (h3, dst)))"

section \<open>Script and host-wrapper emission\<close>

text \<open>
  A text sink is the list of the strings printed to it so far, one entry for each
  \<^verbatim>\<open>print\<close> call; \<^verbatim>\<open>print\<close> ends each with a line feed.
\<close>

definition newline :: char where
  "newline = CHR 0x0A"

definition file_text :: "string list \<Rightarrow> string" where
  "file_text ps = concat (map (\<lambda>s. s @ [newline]) ps)"

text \<open>\<^verbatim>\<open>MddftSolver._writeScript\<close> (source lines 79 to 110).\<close>

definition writeScript :: "MddftSolver \<Rightarrow> string list \<Rightarrow> string list" where
  \<open>writeScript self script_file =
     (let filename = s_namebase self;
          nameroot = s_namebase self;
          dims = str_list (dimensions (s_problem self));
          filetype = ''.c'';
          (nameroot, filetype) =
            (if truthy (s_genCuda self) then (nameroot @ ''_cu'', ''.cu'') else (nameroot, filetype))
      in script_file @
         [''Load(fftx);'',
          ''ImportAll(fftx);'',
          (if truthy (s_genCuda self) then ''conf := LocalConfig.fftx.confGPU();''
           else ''conf := LocalConfig.fftx.defaultConf();''),
          ''t := let(ns := '' @ dims @ '','',
          ''    name := "'' @ nameroot @ ''",'',
          (if truthy (s_colMajor self)
           then ''    TFCall(TRC(TColMajor(MDDFT(ns, '' @ str_int (direction (s_problem self) * - 1)
                  @ ''))), rec(fname := name, params := []))''
           else ''    TFCall(TRC(MDDFT(ns, '' @ str_int (direction (s_problem self) * - 1)
                  @ '')), rec(fname := name, params := []))''),
          '');'',
          ''opts := conf.getOpts(t);''] @
         (if eq_str (get (s_opts self) SW_OPT_REALCTYPE) ''float''
          then [''opts.TRealCtype := "float";''] else []) @
         [''tt := opts.tagIt(t);'',
          [],
          ''c := opts.fftxGen(tt);'',
          ''PrintTo("'' @ filename @ filetype @ ''", opts.prettyPrint(c));'',
          []])\<close>

text \<open>
  \<^verbatim>\<open>MddftSolver._writeCudaHost\<close> (source lines 112 to 157) opens its own file, named
  after the base name, for writing. The file system is a map from file names to what was
  printed to each file.
\<close>

type_synonym files = "string \<rightharpoonup> string list"

definition cudaHostLines :: "MddftSolver \<Rightarrow> string list" where
  \<open>cudaHostLines self =
     (let typ = (if eq_str (get_default (s_opts self) SW_OPT_REALCTYPE (PyInt 0)) ''float''
                 then ''float'' else ''double'');
          dims = dimensions (s_problem self);
          inSzStr = str_int (2 * prod_list dims);
          outSzStr = str_int (2 * prod_list dims);
          genby = ''Host-to-Device C/CUDA Wrapper generated by '' @ ''MddftSolver''
      in [''/*'',
          '' * '' @ genby,
          '' */'',
          [],
          ''#include <helper_cuda.h> '' @ [newline],
          ''extern void init_'' @ s_namebase self @ ''_cu();'',
          ''extern void '' @ s_namebase self @ ''_cu'' @ ''('' @ typ @ ''  *Y, '' @ typ @ ''  *X);'',
          ''extern void destroy_'' @ s_namebase self @ ''_cu();'' @ [newline],
          ''extern "C" { '' @ [newline],
          ''void init_'' @ s_namebase self @ ''()'' @ ''{'',
          ''    init_'' @ s_namebase self @ ''_cu();'',
          ''} '' @ [newline],
          ''void '' @ s_namebase self @ ''('' @ typ @ ''  *Y, '' @ typ @ ''  *X) {'',
          ''    '' @ s_namebase self @ ''_cu(Y, X);'',
          ''    checkCudaErrors(cudaGetLastError());'',
          ''} '' @ [newline],
          ''void destroy_'' @ s_namebase self @ ''() {'',
          ''    destroy_'' @ s_namebase self @ ''_cu();'',
          ''} '' @ [newline],
          ''}''])\<close>

definition writeCudaHost :: "MddftSolver \<Rightarrow> files \<Rightarrow> files" where
  "writeCudaHost self fs =
     (let cu_hostFileName = s_namebase self @ ''_host.cu''
      in fs(cu_hostFileName \<mapsto> cudaHostLines self))"

section \<open>Reading the options\<close>

lemma get_default_eq_float:
  "eq_str (get_default d key (PyInt 0)) ''float'' = (d key = Some (PyStr ''float''))"
  by (cases "d key"; cases "the (d key)") (auto simp: get_default_def)

lemma get_eq_float:
  "eq_str (get d key) ''float'' = (d key = Some (PyStr ''float''))"
  by (cases "d key"; cases "the (d key)") (auto simp: get_def get_default_def)

lemma get_default_truthy:
  "truthy (get_default d key (PyBool False)) = (\<exists>v. d key = Some v \<and> truthy v)"
  by (cases "d key") (auto simp: get_default_def)

section \<open>Construction and the canonical name\<close>

lemma namebase_of_eq:
  "namebase_of p d =
     (if d SW_OPT_REALCTYPE = Some (PyStr ''float'') then ''c'' else ''z'') @
     (if direction p = SW_FORWARD then ''mddft_fwd_'' else ''mddft_inv_'') @
     join ''x'' (map str_int (dimensions p)) @
     (if \<exists>v. d SW_OPT_COLMAJOR = Some v \<and> truthy v then ''_F'' else [])"
  unfolding namebase_of_def Let_def get_default_eq_float get_default_truthy
  by simp

text \<open>
  C1. For every problem, options mapping and artifact, construction succeeds and the base
  name it hands to the framework is the type tag (\<open>c\<close> when the real-type option equals
  \<open>float\<close>, \<open>z\<close> otherwise), then \<open>mddft_fwd_\<close> for a FORWARD problem and \<open>mddft_inv_\<close>
  for an INVERSE one, then the dimensions joined by \<open>x\<close>, then \<open>_F\<close> exactly when the
  column-major option holds a true value. The name depends on the dimensions, the
  direction and the options only: two constructions that agree on them give the same name.
\<close>

theorem canonical_name_construction:
  "(direction p = SW_FORWARD \<longrightarrow>
      (\<exists>s. MddftSolver_init f (Problem p) d = Inr s \<and>
           s_namebase s =
             (if d SW_OPT_REALCTYPE = Some (PyStr ''float'') then ''c'' else ''z'') @
             ''mddft_fwd_'' @ join ''x'' (map str_int (dimensions p)) @
             (if \<exists>v. d SW_OPT_COLMAJOR = Some v \<and> truthy v then ''_F'' else []))) \<and>
   (direction p = SW_INVERSE \<longrightarrow>
      (\<exists>s. MddftSolver_init f (Problem p) d = Inr s \<and>
           s_namebase s =
             (if d SW_OPT_REALCTYPE = Some (PyStr ''float'') then ''c'' else ''z'') @
             ''mddft_inv_'' @ join ''x'' (map str_int (dimensions p)) @
             (if \<exists>v. d SW_OPT_COLMAJOR = Some v \<and> truthy v then ''_F'' else []))) \<and>
   map_sum id s_namebase (MddftSolver_init f (Problem p) d) =
     map_sum id s_namebase (MddftSolver_init g (Problem p) d)"
proof -
  have nm: "s_namebase (SWSolver_init f p n d) = n" for f n
    by (simp add: SWSolver_init_def)
  have ne: "SW_INVERSE \<noteq> SW_FORWARD"
    by (simp add: SW_INVERSE_def SW_FORWARD_def)
  show ?thesis
    using ne by (simp add: nm namebase_of_eq)
qed

text \<open>
  The theorem at an 8 by 8 forward problem without options and at a 4 by 16 by 32 inverse
  problem in single precision and column-major layout.
\<close>

theorem canonical_name_construction_witness:
  "direction (MddftProblem_init [8, 8] None) = SW_FORWARD \<and>
   (\<exists>s. MddftSolver_init (\<lambda>dst src i. 0) (Problem (MddftProblem_init [8, 8] None)) Map.empty = Inr s \<and>
        s_namebase s = ''zmddft_fwd_8x8'') \<and>
   direction (MddftProblem_init [4, 16, 32] (Some SW_INVERSE)) = SW_INVERSE \<and>
   (\<exists>s. MddftSolver_init (\<lambda>dst src i. 0) (Problem (MddftProblem_init [4, 16, 32] (Some SW_INVERSE)))
          [SW_OPT_REALCTYPE \<mapsto> PyStr ''float'', SW_OPT_COLMAJOR \<mapsto> PyBool True] = Inr s \<and>
        s_namebase s = ''cmddft_inv_4x16x32_F'')"
proof -
  let ?f = "\<lambda>(dst::ndarray) (src::ndarray) (i::nat). 0::complex"
  let ?p1 = "MddftProblem_init [8, 8] None"
  let ?p2 = "MddftProblem_init [4, 16, 32] (Some SW_INVERSE)"
  let ?d2 = "[SW_OPT_REALCTYPE \<mapsto> PyStr ''float'', SW_OPT_COLMAJOR \<mapsto> PyBool True]"
  have s8: "str_int 8 = ''8''" "str_int 4 = ''4''" "str_int 16 = ''16''" "str_int 32 = ''32''"
    by (simp_all add: str_int_def str_nat.simps digit_char_def)
  have d1: "direction ?p1 = SW_FORWARD"
    by (simp add: direction_def MddftProblem_init_def)
  have d2: "direction ?p2 = SW_INVERSE"
    by (simp add: direction_def MddftProblem_init_def)
  have n1: "dimensions ?p1 = [8, 8]" and n2: "dimensions ?p2 = [4, 16, 32]"
    by (simp_all add: dimensions_def MddftProblem_init_def)
  from canonical_name_construction [where p = ?p1 and f = ?f and d = Map.empty and g = ?f] d1
  have "\<exists>s. MddftSolver_init ?f (Problem ?p1) Map.empty = Inr s \<and>
            s_namebase s = ''z'' @ ''mddft_fwd_'' @ join ''x'' (map str_int [8, 8]) @ []"
    unfolding n1 by simp
  then have w1: "\<exists>s. MddftSolver_init ?f (Problem ?p1) Map.empty = Inr s \<and>
            s_namebase s = ''zmddft_fwd_8x8''"
    by (simp add: s8)
  from canonical_name_construction [where p = ?p2 and f = ?f and d = ?d2 and g = ?f] d2
  have "\<exists>s. MddftSolver_init ?f (Problem ?p2) ?d2 = Inr s \<and>
            s_namebase s = ''c'' @ ''mddft_inv_'' @ join ''x'' (map str_int [4, 16, 32]) @ ''_F''"
    unfolding n2 by simp
  then have w2: "\<exists>s. MddftSolver_init ?f (Problem ?p2) ?d2 = Inr s \<and>
            s_namebase s = ''cmddft_inv_4x16x32_F''"
    by (simp add: s8)
  from d1 w1 d2 w2 show ?thesis by blast
qed

text \<open>
  C8. Construction from an object that is not a problem descriptor returns the type
  error, whatever the options; construction from a problem descriptor returns a solver.
\<close>

theorem construction_type_error:
  "MddftSolver_init f (NotAProblem v) d = Inl TypeError \<and>
   (\<exists>s. MddftSolver_init f (Problem p) d = Inr s)"
  by simp

text \<open>
  C10. A problem built from its dimensions alone has direction FORWARD, and the name of a
  solver constructed from it contains \<open>fwd\<close>.
\<close>

theorem default_direction_forward:
  "direction (MddftProblem_init ns None) = SW_FORWARD \<and>
   (\<exists>s. MddftSolver_init f (Problem (MddftProblem_init ns None)) d = Inr s \<and>
        sublist ''fwd'' (s_namebase s))"
proof -
  have dir: "direction (MddftProblem_init ns None) = SW_FORWARD"
    by (simp add: direction_def MddftProblem_init_def)
  have "sublist ''fwd'' (t @ ''mddft_fwd_'' @ u)" for t u :: string
    by (simp add: sublist_append sublist_Cons_right)
  then have "sublist ''fwd'' (namebase_of (MddftProblem_init ns None) d)"
    by (simp add: namebase_of_eq dir)
  then show ?thesis
    using dir by (simp add: SWSolver_init_def)
qed

section \<open>The generator script\<close>

lemma str_int_small:
  "str_int 1 = ''1''" "str_int (- 1) = ''-1''" "str_int 8 = ''8''"
  by (simp_all add: str_int_def str_nat.simps digit_char_def)

text \<open>
  C4. For every solver and sink, the sixth statement of the emitted script is the
  transform term, and the direction written into it is the decimal text of \<open>- 1\<close> times
  the problem's direction: \<open>-1\<close> for \<open>SW_FORWARD\<close> and \<open>1\<close> for \<open>SW_INVERSE\<close>.
\<close>

theorem script_direction_negated:
  "writeScript self sink ! (length sink + 5) =
     (if truthy (s_colMajor self)
      then ''    TFCall(TRC(TColMajor(MDDFT(ns, '' @ str_int (- 1 * direction (s_problem self))
             @ ''))), rec(fname := name, params := []))''
      else ''    TFCall(TRC(MDDFT(ns, '' @ str_int (- 1 * direction (s_problem self))
             @ '')), rec(fname := name, params := []))'') \<and>
   str_int (- 1 * SW_FORWARD) = ''-1'' \<and> str_int (- 1 * SW_INVERSE) = ''1''"
  by (simp add: writeScript_def Let_def nth_append SW_FORWARD_def SW_INVERSE_def str_int_small
        split: prod.split)

text \<open>
  C6. For every configuration the script is, after what the sink already held, this
  sequence in this order: load the generator module, import its namespace, select the
  configuration, declare the transform term with its dimensions, name and parameters,
  fetch the options, set the real-type option exactly when the real-type option equals
  \<open>float\<close>, tag the options, generate the code, and print the generated code to the named
  output file.
\<close>

theorem script_statement_order:
  \<open>writeScript self sink =
     sink @
     [''Load(fftx);'',
      ''ImportAll(fftx);'',
      (if truthy (s_genCuda self) then ''conf := LocalConfig.fftx.confGPU();''
       else ''conf := LocalConfig.fftx.defaultConf();''),
      ''t := let(ns := '' @ str_list (dimensions (s_problem self)) @ '','',
      ''    name := "'' @ s_namebase self @ (if truthy (s_genCuda self) then ''_cu'' else []) @ ''",'',
      ''    TFCall(TRC('' @ (if truthy (s_colMajor self) then ''TColMajor('' else []) @
        ''MDDFT(ns, '' @ str_int (- direction (s_problem self)) @ '')'' @
        (if truthy (s_colMajor self) then '')'' else []) @
        ''), rec(fname := name, params := []))'',
      '');'',
      ''opts := conf.getOpts(t);''] @
     (if s_opts self SW_OPT_REALCTYPE = Some (PyStr ''float'')
      then [''opts.TRealCtype := "float";''] else []) @
     [''tt := opts.tagIt(t);'',
      [],
      ''c := opts.fftxGen(tt);'',
      ''PrintTo("'' @ s_namebase self @ (if truthy (s_genCuda self) then ''.cu'' else ''.c'') @
        ''", opts.prettyPrint(c));'',
      []]\<close>
  by (simp add: writeScript_def Let_def get_eq_float split: prod.split)

text \<open>
  C5. For the dimensions 8 by 8, direction FORWARD, no real-type option, and a
  column-major and an accelerator option that are absent or false, the script is the
  thirteen statements below: the transform term carries the direction literal \<open>-1\<close>,
  the text has no \<open>TColMajor\<close> wrapper and no \<open>TRealCtype\<close> line, and the output file is
  \<open>zmddft_fwd_8x8.c\<close>.
\<close>

theorem script_8x8_forward_cpu:
  assumes \<open>d SW_OPT_REALCTYPE = None\<close>
    and \<open>\<not> truthy (get_default d SW_OPT_COLMAJOR (PyBool False))\<close>
    and \<open>\<not> truthy (get_default d SW_OPT_CUDA (PyBool False))\<close>
  shows \<open>\<exists>s. MddftSolver_init f (Problem (MddftProblem_init [8, 8] (Some SW_FORWARD))) d = Inr s \<and>
     writeScript s [] =
       [''Load(fftx);'',
        ''ImportAll(fftx);'',
        ''conf := LocalConfig.fftx.defaultConf();'',
        ''t := let(ns := [8, 8],'',
        ''    name := "zmddft_fwd_8x8",'',
        ''    TFCall(TRC(MDDFT(ns, -1)), rec(fname := name, params := []))'',
        '');'',
        ''opts := conf.getOpts(t);'',
        ''tt := opts.tagIt(t);'',
        [],
        ''c := opts.fftxGen(tt);'',
        ''PrintTo("zmddft_fwd_8x8.c", opts.prettyPrint(c));'',
        []] \<and>
     \<not> sublist ''TColMajor'' (file_text (writeScript s [])) \<and>
     \<not> sublist ''TRealCtype'' (file_text (writeScript s []))\<close>
proof -
  let ?p = "MddftProblem_init [8, 8] (Some SW_FORWARD)"
  have nm: "namebase_of ?p d = ''zmddft_fwd_8x8''"
    using assms
    by (simp add: namebase_of_def Let_def get_default_def direction_def dimensions_def
          MddftProblem_init_def str_int_small)
  have scr: \<open>writeScript (SWSolver_init f ?p ''zmddft_fwd_8x8'' d) [] =
       [''Load(fftx);'',
        ''ImportAll(fftx);'',
        ''conf := LocalConfig.fftx.defaultConf();'',
        ''t := let(ns := [8, 8],'',
        ''    name := "zmddft_fwd_8x8",'',
        ''    TFCall(TRC(MDDFT(ns, -1)), rec(fname := name, params := []))'',
        '');'',
        ''opts := conf.getOpts(t);'',
        ''tt := opts.tagIt(t);'',
        [],
        ''c := opts.fftxGen(tt);'',
        ''PrintTo("zmddft_fwd_8x8.c", opts.prettyPrint(c));'',
        []]\<close>
    using assms
    by (simp add: writeScript_def Let_def get_def get_default_def SWSolver_init_def
          direction_def dimensions_def MddftProblem_init_def SW_FORWARD_def str_int_small
          str_list_def)
  have no1: "\<not> sublist ''TColMajor'' (file_text (writeScript (SWSolver_init f ?p ''zmddft_fwd_8x8'' d) []))"
    unfolding scr file_text_def by (simp add: sublist_Cons_right newline_def)
  have no2: "\<not> sublist ''TRealCtype'' (file_text (writeScript (SWSolver_init f ?p ''zmddft_fwd_8x8'' d) []))"
    unfolding scr file_text_def by (simp add: sublist_Cons_right newline_def)
  show ?thesis
    using scr no1 no2 by (simp add: nm)
qed

text \<open>The theorem at the empty options mapping.\<close>

theorem script_8x8_forward_cpu_witness:
  \<open>\<exists>s. MddftSolver_init (\<lambda>dst src i. 0) (Problem (MddftProblem_init [8, 8] (Some SW_FORWARD)))
          Map.empty = Inr s \<and>
     writeScript s [] ! 5 = ''    TFCall(TRC(MDDFT(ns, -1)), rec(fname := name, params := []))'' \<and>
     writeScript s [] ! 11 = ''PrintTo("zmddft_fwd_8x8.c", opts.prettyPrint(c));'' \<and>
     length (writeScript s []) = 13 \<and>
     \<not> sublist ''TColMajor'' (file_text (writeScript s [])) \<and>
     \<not> sublist ''TRealCtype'' (file_text (writeScript s []))\<close>
proof -
  have a: "Map.empty SW_OPT_REALCTYPE = (None :: pyval option)"
    and b: "\<not> truthy (get_default Map.empty SW_OPT_COLMAJOR (PyBool False))"
    and c: "\<not> truthy (get_default Map.empty SW_OPT_CUDA (PyBool False))"
    by (simp_all add: get_default_def)
  from script_8x8_forward_cpu [OF a b c, of "\<lambda>dst src i. 0"]
  obtain s where s: "MddftSolver_init (\<lambda>dst src i. 0)
        (Problem (MddftProblem_init [8, 8] (Some SW_FORWARD))) Map.empty = Inr s"
    and rest: \<open>writeScript s [] =
       [''Load(fftx);'',
        ''ImportAll(fftx);'',
        ''conf := LocalConfig.fftx.defaultConf();'',
        ''t := let(ns := [8, 8],'',
        ''    name := "zmddft_fwd_8x8",'',
        ''    TFCall(TRC(MDDFT(ns, -1)), rec(fname := name, params := []))'',
        '');'',
        ''opts := conf.getOpts(t);'',
        ''tt := opts.tagIt(t);'',
        [],
        ''c := opts.fftxGen(tt);'',
        ''PrintTo("zmddft_fwd_8x8.c", opts.prettyPrint(c));'',
        []]\<close>
      \<open>\<not> sublist ''TColMajor'' (file_text (writeScript s []))\<close>
      \<open>\<not> sublist ''TRealCtype'' (file_text (writeScript s []))\<close>
    by blast
  have \<open>writeScript s [] ! 5 = ''    TFCall(TRC(MDDFT(ns, -1)), rec(fname := name, params := []))''\<close>
    and \<open>writeScript s [] ! 11 = ''PrintTo("zmddft_fwd_8x8.c", opts.prettyPrint(c));''\<close>
    and \<open>length (writeScript s []) = 13\<close>
    unfolding rest(1) by simp_all
  with s rest(2,3) show ?thesis by blast
qed

section \<open>The host wrapper\<close>

lemma call_line_not_check:
  "n @ ''_cu(Y, X);'' \<noteq> ''checkCudaErrors(cudaGetLastError());''"
proof
  assume "n @ ''_cu(Y, X);'' = ''checkCudaErrors(cudaGetLastError());''"
  then have "rev (n @ ''_cu(Y, X);'') = rev ''checkCudaErrors(cudaGetLastError());''"
    by (rule arg_cong)
  then show False by simp
qed

text \<open>
  C7. For every solver the host-wrapper file, written under the base name followed by
  \<open>_host.cu\<close>, is the twenty printed statements below and nothing else: a comment, the
  include, the declarations of the three \<open>_cu\<close> symbols, and one \<open>extern "C"\<close> block
  that defines exactly three entry points, \<open>init_<name>\<close>, \<open><name>\<close> and
  \<open>destroy_<name>\<close>, each forwarding to its \<open>_cu\<close> symbol. The file has exactly one
  device-error-check statement, right after the wrapped transform call. The element type
  in the signatures is \<open>float\<close> when the real-type option equals \<open>float\<close> and \<open>double\<close>
  otherwise.
\<close>

theorem host_wrapper_entry_points:
  \<open>cudaHostLines self =
     [''/*'',
      '' * Host-to-Device C/CUDA Wrapper generated by MddftSolver'',
      '' */'',
      [],
      ''#include <helper_cuda.h> '' @ [newline],
      ''extern void init_'' @ s_namebase self @ ''_cu();'',
      ''extern void '' @ s_namebase self @ ''_cu('' @
        (if s_opts self SW_OPT_REALCTYPE = Some (PyStr ''float'') then ''float'' else ''double'') @
        ''  *Y, '' @
        (if s_opts self SW_OPT_REALCTYPE = Some (PyStr ''float'') then ''float'' else ''double'') @
        ''  *X);'',
      ''extern void destroy_'' @ s_namebase self @ ''_cu();'' @ [newline],
      ''extern "C" { '' @ [newline],
      ''void init_'' @ s_namebase self @ ''(){'',
      ''    init_'' @ s_namebase self @ ''_cu();'',
      ''} '' @ [newline],
      ''void '' @ s_namebase self @ ''('' @
        (if s_opts self SW_OPT_REALCTYPE = Some (PyStr ''float'') then ''float'' else ''double'') @
        ''  *Y, '' @
        (if s_opts self SW_OPT_REALCTYPE = Some (PyStr ''float'') then ''float'' else ''double'') @
        ''  *X) {'',
      ''    '' @ s_namebase self @ ''_cu(Y, X);'',
      ''    checkCudaErrors(cudaGetLastError());'',
      ''} '' @ [newline],
      ''void destroy_'' @ s_namebase self @ ''() {'',
      ''    destroy_'' @ s_namebase self @ ''_cu();'',
      ''} '' @ [newline],
      ''}''] \<and>
   filter (prefix ''void '') (cudaHostLines self) =
     [''void init_'' @ s_namebase self @ ''(){'',
      ''void '' @ s_namebase self @ ''('' @
        (if s_opts self SW_OPT_REALCTYPE = Some (PyStr ''float'') then ''float'' else ''double'') @
        ''  *Y, '' @
        (if s_opts self SW_OPT_REALCTYPE = Some (PyStr ''float'') then ''float'' else ''double'') @
        ''  *X) {'',
      ''void destroy_'' @ s_namebase self @ ''() {''] \<and>
   filter (prefix ''extern void '') (cudaHostLines self) =
     [''extern void init_'' @ s_namebase self @ ''_cu();'',
      ''extern void '' @ s_namebase self @ ''_cu('' @
        (if s_opts self SW_OPT_REALCTYPE = Some (PyStr ''float'') then ''float'' else ''double'') @
        ''  *Y, '' @
        (if s_opts self SW_OPT_REALCTYPE = Some (PyStr ''float'') then ''float'' else ''double'') @
        ''  *X);'',
      ''extern void destroy_'' @ s_namebase self @ ''_cu();'' @ [newline]] \<and>
   count_list (cudaHostLines self) ''    checkCudaErrors(cudaGetLastError());'' = 1 \<and>
   cudaHostLines self ! 13 = ''    '' @ s_namebase self @ ''_cu(Y, X);'' \<and>
   cudaHostLines self ! 14 = ''    checkCudaErrors(cudaGetLastError());'' \<and>
   writeCudaHost self fs (s_namebase self @ ''_host.cu'') = Some (cudaHostLines self)\<close>
  by (simp add: cudaHostLines_def writeCudaHost_def Let_def get_default_eq_float
        call_line_not_check)

section \<open>Compiled-kernel evaluation\<close>

lemma prod_list_nat:
  "\<forall>n\<in>set ns. 0 \<le> n \<Longrightarrow> int (prod_list (map nat ns)) = prod_list ns"
  by (induction ns) simp_all

lemma zeros_Inr:
  "\<forall>n\<in>set nt. 0 \<le> n \<Longrightarrow>
   zeros nt dt ord = Inr \<lparr>arr_shape = map nat nt, arr_dtype = dt, arr_order = ord,
                          arr_data = replicate (prod_list (map nat nt)) 0\<rparr>"
  by (auto simp: zeros_def list_ex_iff)

lemma solve_Inr:
  assumes "src < length h" and "zeros (dimensions (s_problem self)) (arr_dtype (h ! src))
       (if truthy (s_colMajor self) then F_order else C_order) = Inr z"
  shows "solve self h src =
     Inr (h @ [z\<lparr>arr_data :=
                  (if direction (s_problem self) = SW_INVERSE
                   then map (\<lambda>x. x / of_nat (size_arr z))
                          (map (s_func self z (h ! src)) [0..<length (arr_data z)])
                   else map (s_func self z (h ! src)) [0..<length (arr_data z)])\<rparr>], length h)"
  using assms
  by (simp add: solve_def Let_def alloc_def call_func_def divide_out_def nth_append size_arr_def
       del: map_map)

text \<open>A negative dimension makes the allocation, and with it solve, fail.\<close>

lemma solve_negative_extent:
  "\<exists>n\<in>set (dimensions (s_problem self)). n < 0 \<Longrightarrow> solve self h src = Inl ValueError"
  by (auto simp: solve_def zeros_def list_ex_iff)

lemma map_int_nat: "\<forall>n\<in>set ns. 0 \<le> n \<Longrightarrow> map int (map nat ns) = ns"
  by (induction ns) simp_all

lemma solver_fields:
  "s_problem (SWSolver_init f p nm d) = p"
  "s_namebase (SWSolver_init f p nm d) = nm"
  "s_opts (SWSolver_init f p nm d) = d"
  "s_func (SWSolver_init f p nm d) = f"
  "truthy (s_colMajor (SWSolver_init f p nm d)) = (\<exists>v. d SW_OPT_COLMAJOR = Some v \<and> truthy v)"
  "truthy (s_genCuda (SWSolver_init f p nm d)) = (\<exists>v. d SW_OPT_CUDA = Some v \<and> truthy v)"
  by (simp_all add: SWSolver_init_def get_default_truthy)

text \<open>
  C2. For every store and input array, and dimensions that the allocation accepts, solve
  returns the freshly allocated destination. For an INVERSE problem its elements are what
  the artifact left there, each divided by the product of the problem's dimensions; for a
  FORWARD problem they are what the artifact left there, undivided.
\<close>

theorem solve_scales_inverse_only:
  assumes "src < length h" and "\<forall>n\<in>set (dimensions (s_problem self)). 0 \<le> n"
  shows "\<exists>z. zeros (dimensions (s_problem self)) (arr_dtype (h ! src))
               (if truthy (s_colMajor self) then F_order else C_order) = Inr z \<and>
     (direction (s_problem self) = SW_INVERSE \<longrightarrow>
        solve self h src =
          Inr (h @ [z\<lparr>arr_data :=
                      map (\<lambda>x. x / of_int (prod_list (dimensions (s_problem self))))
                        (map (s_func self z (h ! src)) [0..<length (arr_data z)])\<rparr>], length h)) \<and>
     (direction (s_problem self) = SW_FORWARD \<longrightarrow>
        solve self h src =
          Inr (h @ [z\<lparr>arr_data := map (s_func self z (h ! src)) [0..<length (arr_data z)]\<rparr>],
               length h))"
proof -
  let ?nt = "dimensions (s_problem self)"
  let ?ord = "if truthy (s_colMajor self) then F_order else C_order"
  let ?z = "\<lparr>arr_shape = map nat ?nt, arr_dtype = arr_dtype (h ! src), arr_order = ?ord,
             arr_data = replicate (prod_list (map nat ?nt)) 0\<rparr>"
  have z: "zeros ?nt (arr_dtype (h ! src)) ?ord = Inr ?z"
    using assms(2) by (rule zeros_Inr)
  have sz: "(of_nat (size_arr ?z) :: complex) = of_int (prod_list ?nt)"
  proof -
    have "(of_nat (size_arr ?z) :: complex) = of_int (int (prod_list (map nat ?nt)))"
      by (simp add: size_arr_def)
    then show ?thesis
      by (simp only: prod_list_nat [OF assms(2)])
  qed
  have ne: "SW_FORWARD \<noteq> SW_INVERSE"
    by (simp add: SW_FORWARD_def SW_INVERSE_def)
  note s = solve_Inr [OF assms(1) z]
  have inv: "direction (s_problem self) = SW_INVERSE \<Longrightarrow> solve self h src =
          Inr (h @ [?z\<lparr>arr_data :=
                      map (\<lambda>x. x / of_int (prod_list ?nt))
                        (map (s_func self ?z (h ! src)) [0..<length (arr_data ?z)])\<rparr>], length h)"
    unfolding s sz by (simp del: map_map)
  have fwd: "direction (s_problem self) = SW_FORWARD \<Longrightarrow> solve self h src =
          Inr (h @ [?z\<lparr>arr_data := map (s_func self ?z (h ! src)) [0..<length (arr_data ?z)]\<rparr>],
               length h)"
    unfolding s using ne by (simp del: map_map)
  from z inv fwd show ?thesis by blast
qed

text \<open>
  The theorem at a two-element problem, with an artifact that writes four times its
  source: the inverse solver returns half of that, the forward solver all of it.
\<close>

theorem solve_scales_inverse_only_witness:
  "solve (SWSolver_init (\<lambda>dst src i. arr_data src ! i * 4) (MddftProblem_init [2] (Some SW_INVERSE))
            ''zmddft_inv_2'' Map.empty)
     [\<lparr>arr_shape = [2], arr_dtype = Complex128, arr_order = C_order, arr_data = [1, 3]\<rparr>] 0 =
   Inr ([\<lparr>arr_shape = [2], arr_dtype = Complex128, arr_order = C_order, arr_data = [1, 3]\<rparr>,
         \<lparr>arr_shape = [2], arr_dtype = Complex128, arr_order = C_order, arr_data = [2, 6]\<rparr>], 1) \<and>
   solve (SWSolver_init (\<lambda>dst src i. arr_data src ! i * 4) (MddftProblem_init [2] (Some SW_FORWARD))
            ''zmddft_fwd_2'' Map.empty)
     [\<lparr>arr_shape = [2], arr_dtype = Complex128, arr_order = C_order, arr_data = [1, 3]\<rparr>] 0 =
   Inr ([\<lparr>arr_shape = [2], arr_dtype = Complex128, arr_order = C_order, arr_data = [1, 3]\<rparr>,
         \<lparr>arr_shape = [2], arr_dtype = Complex128, arr_order = C_order, arr_data = [4, 12]\<rparr>], 1)"
proof -
  let ?f = "\<lambda>(dst::ndarray) (src::ndarray) (i::nat). arr_data src ! i * 4"
  let ?a = "\<lparr>arr_shape = [2], arr_dtype = Complex128, arr_order = C_order, arr_data = [1, 3]\<rparr>"
  let ?si = "SWSolver_init ?f (MddftProblem_init [2] (Some SW_INVERSE)) ''zmddft_inv_2'' Map.empty"
  let ?sf = "SWSolver_init ?f (MddftProblem_init [2] (Some SW_FORWARD)) ''zmddft_fwd_2'' Map.empty"
  have len: "0 < length [?a]" by simp
  have fields [simp]:
    "dimensions (s_problem ?si) = [2]" "dimensions (s_problem ?sf) = [2]"
    "direction (s_problem ?si) = SW_INVERSE" "direction (s_problem ?sf) = SW_FORWARD"
    "s_colMajor ?si = PyBool False" "s_colMajor ?sf = PyBool False"
    "s_func ?si = ?f" "s_func ?sf = ?f"
    by (simp_all add: SWSolver_init_def MddftProblem_init_def dimensions_def direction_def
          get_default_def)
  have nn: "\<forall>n\<in>set (dimensions (s_problem ?si)). 0 \<le> n" "\<forall>n\<in>set (dimensions (s_problem ?sf)). 0 \<le> n"
    by simp_all
  from solve_scales_inverse_only [OF len nn(1)]
  have i: "solve ?si [?a] 0 = Inr ([?a, \<lparr>arr_shape = [2], arr_dtype = Complex128,
              arr_order = C_order, arr_data = [2, 6]\<rparr>], 1)"
    by (auto simp: zeros_def upt_rec)
  from solve_scales_inverse_only [OF len nn(2)]
  have f: "solve ?sf [?a] 0 = Inr ([?a, \<lparr>arr_shape = [2], arr_dtype = Complex128,
              arr_order = C_order, arr_data = [4, 12]\<rparr>], 1)"
    by (auto simp: zeros_def upt_rec)
  from i f show ?thesis by (rule conjI)
qed

text \<open>
  C9. For every solver constructed from a problem and an options mapping, every store and
  every input array in it, solve returns a reference that was not in the store before,
  hence distinct from the input; every array of the store, the input among them, is as it
  was; and the new array has the problem's dimensions as its shape, the input's element
  type, and column-major order exactly when the column-major option holds a true value,
  row-major order otherwise.
\<close>

theorem solve_fresh_destination:
  assumes "MddftSolver_init f (Problem p) d = Inr self"
    and "src < length h" and "\<forall>n\<in>set (dimensions p). 0 \<le> n"
  shows "\<exists>h' dst. solve self h src = Inr (h', dst) \<and>
           dst = length h \<and> dst \<noteq> src \<and> length h' = Suc (length h) \<and>
           take (length h) h' = h \<and> h' ! src = h ! src \<and>
           map int (arr_shape (h' ! dst)) = dimensions p \<and>
           arr_dtype (h' ! dst) = arr_dtype (h ! src) \<and>
           arr_order (h' ! dst) =
             (if \<exists>v. d SW_OPT_COLMAJOR = Some v \<and> truthy v then F_order else C_order)"
proof -
  have self: "self = SWSolver_init f p (namebase_of p d) d"
    using assms(1) by simp
  let ?ord = "if truthy (s_colMajor self) then F_order else C_order"
  let ?z = "\<lparr>arr_shape = map nat (dimensions p), arr_dtype = arr_dtype (h ! src),
             arr_order = ?ord, arr_data = replicate (prod_list (map nat (dimensions p))) 0\<rparr>"
  have "zeros (dimensions p) (arr_dtype (h ! src)) ?ord = Inr ?z"
    using assms(3) by (rule zeros_Inr)
  then have z: "zeros (dimensions (s_problem self)) (arr_dtype (h ! src)) ?ord = Inr ?z"
    by (simp add: self solver_fields)
  show ?thesis
    unfolding solve_Inr [OF assms(2) z]
    using assms(2) map_int_nat [OF assms(3)]
    by (simp add: nth_append self solver_fields del: map_map)
qed

text \<open>The theorem at a 2 by 1 problem with the column-major option set.\<close>

theorem solve_fresh_destination_witness:
  "\<exists>self h' dst.
     MddftSolver_init (\<lambda>dst src i. arr_data src ! i * 4) (Problem (MddftProblem_init [2, 1] None))
       [SW_OPT_COLMAJOR \<mapsto> PyBool True] = Inr self \<and>
     solve self [\<lparr>arr_shape = [2, 1], arr_dtype = Complex64, arr_order = C_order,
                   arr_data = [1, 3]\<rparr>] 0 = Inr (h', dst) \<and>
     dst = 1 \<and> length h' = 2 \<and>
     h' ! 0 = \<lparr>arr_shape = [2, 1], arr_dtype = Complex64, arr_order = C_order, arr_data = [1, 3]\<rparr> \<and>
     arr_shape (h' ! dst) = [2, 1] \<and> arr_dtype (h' ! dst) = Complex64 \<and>
     arr_order (h' ! dst) = F_order"
proof -
  let ?f = "\<lambda>(dst::ndarray) (src::ndarray) (i::nat). arr_data src ! i * 4"
  let ?p = "MddftProblem_init [2, 1] None"
  let ?d = "[SW_OPT_COLMAJOR \<mapsto> PyBool True]"
  let ?a = "\<lparr>arr_shape = [2, 1], arr_dtype = Complex64, arr_order = C_order, arr_data = [1, 3]\<rparr>"
  let ?self = "SWSolver_init ?f ?p (namebase_of ?p ?d) ?d"
  have c: "MddftSolver_init ?f (Problem ?p) ?d = Inr ?self"
    by simp
  have len: "0 < length [?a]"
    by simp
  have dims: "dimensions ?p = [2, 1]"
    by (simp add: dimensions_def MddftProblem_init_def)
  have nn: "\<forall>n\<in>set (dimensions ?p). 0 \<le> n"
    unfolding dims by simp
  from solve_fresh_destination [OF c len nn]
  obtain h' dst where r: "solve ?self [?a] 0 = Inr (h', dst)" "dst = length [?a]"
      "length h' = Suc (length [?a])" "h' ! 0 = [?a] ! 0"
      "map int (arr_shape (h' ! dst)) = dimensions ?p"
      "arr_dtype (h' ! dst) = arr_dtype ([?a] ! 0)"
      "arr_order (h' ! dst) =
         (if \<exists>v. ?d SW_OPT_COLMAJOR = Some v \<and> truthy v then F_order else C_order)"
    by blast
  have shp: "arr_shape (h' ! dst) = [2, 1]"
    using r(5) unfolding dims by (auto simp: map_eq_Cons_conv)
  from c r(1-4) shp r(6,7) show ?thesis
    by (intro exI [of _ ?self] exI [of _ h'] exI [of _ dst]) simp
qed

section \<open>Reference evaluation\<close>

text \<open>
  Outside rank at least one with positive extents runDef does not produce a new array:
  for an array of rank zero it returns the input object itself and leaves the store as it
  is, and for an array with an axis of length zero it fails with the library's error.
\<close>

lemma runDef_rank_zero:
  "arr_shape (h ! src) = [] \<Longrightarrow> runDef self h src = Inr (h, src)"
  by (simp add: runDef_def fftn_def ifftn_def)

lemma runDef_empty_axis:
  "0 \<in> set (arr_shape (h ! src)) \<Longrightarrow> runDef self h src = Inl ValueError"
  by (auto simp: runDef_def fftn_def ifftn_def)

text \<open>
  C3, as stated, fails for the INVERSE direction: on the two-element array \<open>[2, 0]\<close>
  the unscaled inverse sum is \<open>[2, 2]\<close>, and runDef returns \<open>[1, 1]\<close>, since the
  library's inverse transform divides by the number of elements.
\<close>

theorem runDef_inverse_is_scaled:
  "runDef (SWSolver_init (\<lambda>dst src i. 0) (MddftProblem_init [2] (Some SW_INVERSE))
             ''zmddft_inv_2'' Map.empty)
     [\<lparr>arr_shape = [2], arr_dtype = Complex128, arr_order = C_order, arr_data = [2, 0]\<rparr>] 0 =
   Inr ([\<lparr>arr_shape = [2], arr_dtype = Complex128, arr_order = C_order, arr_data = [2, 0]\<rparr>,
         \<lparr>arr_shape = [2], arr_dtype = Complex128, arr_order = C_order, arr_data = [1, 1]\<rparr>], 1) \<and>
   dftn 1 [2] [2, 0] = [2, 2] \<and>
   [1, 1] \<noteq> dftn 1 [2] [2, 0]"
proof -
  have d: "dftn 1 [2] [2, 0] = [2, 2]"
    by (simp add: dftn_def phase_def upt_rec)
  have ne: "SW_INVERSE \<noteq> SW_FORWARD"
    by (simp add: SW_INVERSE_def SW_FORWARD_def)
  show ?thesis
    using ne
    by (simp add: runDef_def alloc_def ifftn_def ifftn_array_def size_arr_def d solver_fields
          direction_def MddftProblem_init_def)
qed

text \<open>
  C3, amended. For every store and every input array of rank at least one whose extents
  are all positive, runDef returns a new array, leaving every array of the store as it
  was, of the same shape as its input. For a FORWARD problem its elements are the
  unscaled forward sum; for an INVERSE problem they are the inverse sum divided by the
  number of elements, the division being the library's own: runDef adds no scaling of its
  own in either direction.
\<close>

theorem runDef_reference_transform:
  assumes "src < length h"
    and "arr_shape (h ! src) \<noteq> []"
    and "\<forall>n\<in>set (arr_shape (h ! src)). 0 < n"
  shows "\<exists>h' r. runDef self h src = Inr (h', r) \<and>
           r = length h \<and> r \<noteq> src \<and> length h' = Suc (length h) \<and>
           take (length h) h' = h \<and> h' ! src = h ! src \<and>
           arr_shape (h' ! r) = arr_shape (h ! src) \<and>
           (direction (s_problem self) = SW_FORWARD \<longrightarrow>
              arr_data (h' ! r) = dftn (- 1) (arr_shape (h ! src)) (arr_data (h ! src))) \<and>
           (direction (s_problem self) = SW_INVERSE \<longrightarrow>
              arr_data (h' ! r) =
                map (\<lambda>y. y / of_nat (prod_list (arr_shape (h ! src))))
                  (dftn 1 (arr_shape (h ! src)) (arr_data (h ! src))))"
proof -
  have ne: "SW_INVERSE \<noteq> SW_FORWARD"
    by (simp add: SW_INVERSE_def SW_FORWARD_def)
  have nz: "0 \<notin> set (arr_shape (h ! src))"
    using assms(3) by auto
  show ?thesis
    using assms(1,2) ne nz
    by (simp add: runDef_def fftn_def ifftn_def alloc_def fftn_array_def ifftn_array_def
          size_arr_def nth_append)
qed

text \<open>The amended statement at the input of the counterexample.\<close>

theorem runDef_reference_transform_witness:
  "\<exists>h'. runDef (SWSolver_init (\<lambda>dst src i. 0) (MddftProblem_init [2] (Some SW_INVERSE))
                 ''zmddft_inv_2'' Map.empty)
           [\<lparr>arr_shape = [2], arr_dtype = Complex128, arr_order = C_order, arr_data = [2, 0]\<rparr>] 0
         = Inr (h', 1) \<and>
        h' ! 0 = \<lparr>arr_shape = [2], arr_dtype = Complex128, arr_order = C_order, arr_data = [2, 0]\<rparr> \<and>
        arr_shape (h' ! 1) = [2] \<and> arr_data (h' ! 1) = [1, 1]"
proof -
  let ?self = "SWSolver_init (\<lambda>dst src i. 0) (MddftProblem_init [2] (Some SW_INVERSE))
                 ''zmddft_inv_2'' Map.empty"
  let ?a = "\<lparr>arr_shape = [2], arr_dtype = Complex128, arr_order = C_order, arr_data = [2, 0]\<rparr>"
  have len: "0 < length [?a]"
    by simp
  have rank: "arr_shape ([?a] ! 0) \<noteq> []"
    by simp
  have pos: "\<forall>n\<in>set (arr_shape ([?a] ! 0)). 0 < n"
    by simp
  have dir: "direction (s_problem ?self) = SW_INVERSE"
    by (simp add: solver_fields direction_def MddftProblem_init_def)
  have d: "dftn 1 [2] [2, 0] = [2, 2]"
    by (simp add: dftn_def phase_def upt_rec)
  from runDef_reference_transform [OF len rank pos, of ?self] dir
  obtain h' r where r: "runDef ?self [?a] 0 = Inr (h', r)" "r = length [?a]" "h' ! 0 = [?a] ! 0"
      "arr_shape (h' ! r) = arr_shape ([?a] ! 0)"
      "arr_data (h' ! r) =
         map (\<lambda>y. y / of_nat (prod_list (arr_shape ([?a] ! 0))))
           (dftn 1 (arr_shape ([?a] ! 0)) (arr_data ([?a] ! 0)))"
    by blast
  then show ?thesis
    by (intro exI [of _ h']) (simp add: d)
qed

end
